theory Spec2Isabelle
  imports Main
begin

section \<open>The backup handle of backup/api.c\<close>

text \<open>
  The three mode enumerations of api.c. Each is a C enum whose first member is 0; the
  numeric value matters where the code tests a mode for truth
  (\<^verbatim>\<open>if (backup->lock_type)\<close>). The validity macros
  \<^verbatim>\<open>backup_is_valid_*\<close> hold of every member, so the asserts at the head of
  \<^verbatim>\<open>backup_open_internal\<close> and the \<^verbatim>\<open>default:\<close> branch of its switch
  have no counterpart here.
\<close>

datatype backup_lock_type = BACKUP_LOCK_SHARED | BACKUP_LOCK_EXCLUSIVE

datatype backup_data_mode = BACKUP_DATA_NORMAL | BACKUP_DATA_APPEND | BACKUP_DATA_CREATE

datatype backup_index_mode = BACKUP_INDEX_READ | BACKUP_INDEX_WRITE | BACKUP_INDEX_CREATE

fun lock_type_val :: "backup_lock_type \<Rightarrow> int" where
  "lock_type_val BACKUP_LOCK_SHARED = 0"
| "lock_type_val BACKUP_LOCK_EXCLUSIVE = 1"

text \<open>
  \<^verbatim>\<open>struct backup\<close>. Pointers are options (\<open>None\<close> is NULL); \<open>'d\<close> is the
  index connection \<^verbatim>\<open>sqldb_t\<close>, whose declaration is in lib/sqldb.h. The
  \<^verbatim>\<open>gzuc\<close> member is never assigned in api.c and is left out.
\<close>

record 'd backup =
  fd :: int
  name :: "string option"
  gzname :: "string option"
  idxname :: "string option"
  oldidxname :: "string option"
  db :: "'d option"
  lock_type :: backup_lock_type
  data_mode :: backup_data_mode
  index_mode :: backup_index_mode

text \<open>What \<^verbatim>\<open>xzmalloc(sizeof *backup)\<close> returns: every member zero.\<close>

definition zeroed_backup :: "'d backup" where
  "zeroed_backup = \<lparr> fd = 0, name = None, gzname = None, idxname = None, oldidxname = None,
     db = None, lock_type = BACKUP_LOCK_SHARED, data_mode = BACKUP_DATA_NORMAL,
     index_mode = BACKUP_INDEX_READ \<rparr>"

datatype oflag = O_RDWR | O_APPEND | O_CREAT | O_EXCL

definition ENOENT :: int where
  "ENOENT = 2"

definition EOF :: int where
  "EOF = - 1"

text \<open>
  One step of \<^verbatim>\<open>struct sqldb_upgrade\<close>: the version it leads to and its statement.
\<close>

type_synonym sqldb_upgrade = "int \<times> string"

text \<open>
  The functions and constants that api.c takes from libc, lib/ and backup/sqlconsts.h
  are parameters of the model. A call of \<^verbatim>\<open>open\<close> or \<^verbatim>\<open>rename\<close> gives its
  return value and \<^verbatim>\<open>errno\<close>. \<^verbatim>\<open>lock_setlock fd exclusive nb filename\<close>
  gives \<open>None\<close> when the call does not return because it is waiting for the lock.
\<close>

record 'd env =
  xzmalloc_ok :: bool
  strdup :: "string \<Rightarrow> string option"
  sys_open :: "string \<Rightarrow> oflag list \<Rightarrow> int \<times> int"
  lock_setlock :: "int \<Rightarrow> bool \<Rightarrow> bool \<Rightarrow> string \<Rightarrow> int option"
  sys_rename :: "string \<Rightarrow> string \<Rightarrow> int \<times> int"
  sqldb_open :: "string \<Rightarrow> string option \<Rightarrow> int \<Rightarrow> sqldb_upgrade list option \<Rightarrow> 'd option"
  backup_index_initsql :: string
  backup_index_version :: int
  backup_index_upgrade :: "sqldb_upgrade list"

text \<open>The calls with an effect outside the process, in the order they are made.\<close>

datatype 'd event =
    E_open string "oflag list"
  | E_lock_setlock int bool bool string
  | E_rename string string
  | E_sqldb_open string "string option" int "sqldb_upgrade list option"
  | E_lock_unlock int "string option"
  | E_close int
  | E_free string
  | E_sqldb_close 'd
  | E_free_backup

text \<open>
  How \<^verbatim>\<open>backup_open_internal\<close> ends: 0 with the handle stored in
  \<^verbatim>\<open>*backupp\<close>, the \<^verbatim>\<open>error:\<close> label with its return value and
  \<^verbatim>\<open>*backupp\<close> untouched, or no return while \<^verbatim>\<open>lock_setlock\<close> waits.
\<close>

datatype 'd open_result = Opened "'d backup" | Open_failed int | Open_blocked

text \<open>The \<^verbatim>\<open>error:\<close> label, lines 185 to 193.\<close>

definition unwind :: "'d backup \<Rightarrow> 'd event list" where
  "unwind b =
     (if lock_type_val (lock_type b) \<noteq> 0 then [E_lock_unlock (fd b) (gzname b)] else []) @
     (if fd b \<ge> 0 then [E_close (fd b)] else []) @
     (case name b of Some s \<Rightarrow> [E_free s] | None \<Rightarrow> []) @
     (case gzname b of Some s \<Rightarrow> [E_free s] | None \<Rightarrow> []) @
     (case idxname b of Some s \<Rightarrow> [E_free s] | None \<Rightarrow> []) @
     (case oldidxname b of Some s \<Rightarrow> [E_free s] | None \<Rightarrow> []) @
     (case db b of Some d \<Rightarrow> [E_sqldb_close d] | None \<Rightarrow> []) @
     [E_free_backup]"

text \<open>The switch on \<^verbatim>\<open>data_mode\<close>: the open flags and the lock type after it.\<close>

fun data_mode_switch :: "backup_data_mode \<Rightarrow> backup_lock_type \<Rightarrow> oflag list \<times> backup_lock_type" where
  "data_mode_switch BACKUP_DATA_NORMAL lt = ([O_RDWR], lt)"
| "data_mode_switch BACKUP_DATA_APPEND lt = ([O_RDWR, O_APPEND], BACKUP_LOCK_EXCLUSIVE)"
| "data_mode_switch BACKUP_DATA_CREATE lt = ([O_RDWR, O_CREAT, O_EXCL], BACKUP_LOCK_EXCLUSIVE)"

text \<open>
  Lines 174 to 183: \<^verbatim>\<open>sqldb_open\<close> and the successful return. \<open>tr\<close> is the trace
  so far.
\<close>

definition open_db :: "'d env \<Rightarrow> 'd backup \<Rightarrow> string \<Rightarrow> backup_index_mode \<Rightarrow> string option
    \<Rightarrow> sqldb_upgrade list option \<Rightarrow> 'd event list \<Rightarrow> 'd open_result \<times> 'd event list" where
  "open_db e b idx im initsql upgradesql tr =
     (let d = sqldb_open e idx initsql (backup_index_version e) upgradesql;
          tr1 = tr @ [E_sqldb_open idx initsql (backup_index_version e) upgradesql];
          b1 = b\<lparr>db := d\<rparr>
      in case d of
           None \<Rightarrow> (Open_failed (- 1), tr1 @ unwind b1)
         | Some _ \<Rightarrow> (Opened (b1\<lparr>index_mode := im\<rparr>), tr1))"

text \<open>
  Lines 150 to 172, "open the index", entered with the lock held: \<^verbatim>\<open>initsql\<close> and
  \<^verbatim>\<open>upgradesql\<close> stay NULL unless the index mode is WRITE or CREATE, and CREATE
  renames the index aside first.
\<close>

definition open_index :: "'d env \<Rightarrow> 'd backup \<Rightarrow> string \<Rightarrow> backup_index_mode \<Rightarrow> 'd event list
    \<Rightarrow> 'd open_result \<times> 'd event list" where
  "open_index e b idx im tr =
     (case im of
        BACKUP_INDEX_READ \<Rightarrow> open_db e b idx im None None tr
      | BACKUP_INDEX_WRITE \<Rightarrow>
          open_db e b idx im (Some (backup_index_initsql e)) (Some (backup_index_upgrade e)) tr
      | BACKUP_INDEX_CREATE \<Rightarrow>
          (let old = idx @ ''.old'';
               (r, errno) = sys_rename e idx old;
               tr1 = tr @ [E_rename idx old]
           in if r \<noteq> 0 \<and> errno \<noteq> ENOENT
              then (Open_failed errno, tr1 @ [E_free old] @ unwind b)
              else open_db e (b\<lparr>oldidxname := Some old\<rparr>) idx im
                     (Some (backup_index_initsql e)) (Some (backup_index_upgrade e)) tr1))"

definition backup_open_internal :: "'d env \<Rightarrow> string \<Rightarrow> backup_lock_type \<Rightarrow> backup_data_mode
    \<Rightarrow> backup_index_mode \<Rightarrow> 'd open_result \<times> 'd event list" where
  "backup_open_internal e nm lt0 dm im =
     (if \<not> xzmalloc_ok e then (Open_failed (- 1), [])
      else
        let gz = nm @ ''.gz'';
            idx = nm @ ''.index'';
            b0 = zeroed_backup\<lparr>fd := - 1, name := strdup e nm, gzname := Some gz,
                   idxname := Some idx\<rparr>;
            (openflags, lt) = data_mode_switch dm lt0;
            (newfd, errno) = sys_open e gz openflags;
            b1 = b0\<lparr>fd := newfd\<rparr>;
            tr1 = [E_open gz openflags]
        in if newfd < 0 then (Open_failed errno, tr1 @ unwind b1)
           else
             let b2 = b1\<lparr>data_mode := dm\<rparr>;
                 tr2 = tr1 @ [E_lock_setlock newfd (lt = BACKUP_LOCK_EXCLUSIVE) False gz]
             in case lock_setlock e newfd (lt = BACKUP_LOCK_EXCLUSIVE) False gz of
                  None \<Rightarrow> (Open_blocked, tr2)
                | Some r \<Rightarrow>
                    if r \<noteq> 0 then (Open_failed r, tr2 @ unwind b2)
                    else open_index e (b2\<lparr>lock_type := lt\<rparr>) idx im tr2)"

text \<open>\<^verbatim>\<open>backup_close\<close>, lines 317 to 320: the body is \<^verbatim>\<open>return -1;\<close>.
  It makes no call and leaves \<^verbatim>\<open>*backupp\<close> as it is.\<close>

definition backup_close :: "'d backup option \<Rightarrow> 'd event list \<Rightarrow> int \<times> 'd backup option \<times> 'd event list" where
  "backup_close bp tr = (- 1, bp, tr)"

text \<open>
  What the process holds after a trace: the descriptors it has open, the descriptors through
  which it holds the advisory lock, and the index connections it has open. A call acquires
  when the environment lets it succeed. The lock goes with \<^verbatim>\<open>lock_unlock\<close>, and also
  with \<^verbatim>\<open>close\<close> of the descriptor it was taken through, as advisory file locks do.
\<close>

record 'd held =
  open_fds :: "int set"
  locked_fds :: "int set"
  open_dbs :: "'d set"

definition nothing_held :: "'d held" where
  "nothing_held = \<lparr> open_fds = {}, locked_fds = {}, open_dbs = {} \<rparr>"

fun after_event :: "'d env \<Rightarrow> 'd held \<Rightarrow> 'd event \<Rightarrow> 'd held" where
  "after_event e h (E_open p fl) =
     (if 0 \<le> fst (sys_open e p fl)
      then h\<lparr>open_fds := insert (fst (sys_open e p fl)) (open_fds h)\<rparr> else h)"
| "after_event e h (E_lock_setlock f ex nb nm) =
     (if lock_setlock e f ex nb nm = Some 0
      then h\<lparr>locked_fds := insert f (locked_fds h)\<rparr> else h)"
| "after_event e h (E_lock_unlock f nm) = h\<lparr>locked_fds := locked_fds h - {f}\<rparr>"
| "after_event e h (E_close f) =
     h\<lparr>open_fds := open_fds h - {f}, locked_fds := locked_fds h - {f}\<rparr>"
| "after_event e h (E_sqldb_open p i v u) =
     (case sqldb_open e p i v u of
        None \<Rightarrow> h
      | Some d \<Rightarrow> h\<lparr>open_dbs := insert d (open_dbs h)\<rparr>)"
| "after_event e h (E_sqldb_close d) = h\<lparr>open_dbs := open_dbs h - {d}\<rparr>"
| "after_event e h (E_rename old new) = h"
| "after_event e h (E_free s) = h"
| "after_event e h E_free_backup = h"

definition held_after :: "'d env \<Rightarrow> 'd event list \<Rightarrow> 'd held" where
  "held_after e tr = foldl (after_event e) nothing_held tr"


section \<open>The record protocol and the reindexer\<close>

text \<open>
  \<^verbatim>\<open>struct dlist\<close> (imap/dlist.h): api.c reads only its \<^verbatim>\<open>name\<close>; the rest of
  the payload is \<open>'p\<close>.
\<close>

datatype 'p dlist = Dlist (dname: string) (dbody: 'p)

text \<open>
  The protstream and parser functions that \<^verbatim>\<open>backup_parse_command\<close> calls (lib/prot,
  imap/imapparse, imap/dlist) are parameters, over the stream state \<open>'s\<close>. Each takes
  the stream and gives it back; the parsers give the character they return first, then what
  they store through their pointer argument. \<^verbatim>\<open>dlist_parse\<close> is the call with the
  flags \<^verbatim>\<open>DLIST_SFILE | DLIST_PARSEKEY\<close>; \<open>None\<close> is a \<^verbatim>\<open>dl\<close> left NULL.
\<close>

record ('s, 'p) prot =
  prot_getc :: "'s \<Rightarrow> int \<times> 's"
  prot_ungetc :: "int \<Rightarrow> 's \<Rightarrow> 's"
  eatline :: "'s \<Rightarrow> int \<Rightarrow> 's"
  getint64 :: "'s \<Rightarrow> int \<times> int \<times> 's"
  getword :: "'s \<Rightarrow> int \<times> string \<times> 's"
  dlist_parse :: "'s \<Rightarrow> int \<times> 'p dlist option \<times> 's"

text \<open>
  \<^verbatim>\<open>backup_parse_command\<close>, lines 210 to 254. The result is the returned character,
  the triple written to \<^verbatim>\<open>*ts\<close>, \<^verbatim>\<open>cmd\<close> and \<^verbatim>\<open>*kin\<close> (\<open>None\<close> on
  the \<^verbatim>\<open>fail:\<close> path, which writes none of them) and the stream. The characters are
  35 for \<^verbatim>\<open>'#'\<close>, 13 for \<^verbatim>\<open>'\r'\<close> and 10 for \<^verbatim>\<open>'\n'\<close>. A timestamp is
  an \<open>int\<close>: the code compares timestamps and never computes with them.
\<close>

definition backup_parse_command :: "('s, 'p) prot \<Rightarrow> 's
    \<Rightarrow> int \<times> (int \<times> string \<times> 'p dlist) option \<times> 's" where
  "backup_parse_command P s0 =
     (let (c0, s1) = prot_getc P s0;
          s2 = (if c0 = 35 then eatline P s1 c0 else prot_ungetc P c0 s1);
          (c1, t, s3) = getint64 P s2
      in if c1 = EOF then (c1, None, s3)
         else
           let (c2, buf, s4) = getword P s3
           in if c2 = EOF then (c2, None, s4)
              else
                let (c3, dl, s5) = dlist_parse P s4
                in case dl of
                     None \<Rightarrow> (c3, None, s5)
                   | Some d \<Rightarrow>
                       let (c4, s6) = (if c3 = 13 then prot_getc P s5 else (c3, s5))
                       in if c4 \<noteq> 10 then (c4, None, eatline P s6 c4)
                          else (c4, Some (t, buf, d), s6))"

text \<open>
  Modelled from the spec: \<^verbatim>\<open>ucase\<close> of lib/util.c is not under src/. The spec says
  that the payload's command name is upper-cased; here every ASCII lower-case letter is
  replaced by its capital and every other byte is kept.
\<close>

definition ucase :: "string \<Rightarrow> string" where
  "ucase s = map (\<lambda>c. let n = (of_char c :: nat)
                      in if 97 \<le> n \<and> n \<le> 122 then char_of (n - 32) else c) s"

text \<open>
  The variables of \<^verbatim>\<open>backup_reindex\<close> that outlive one pass of the inner loop:
  the cursor \<^verbatim>\<open>member_ts\<close>, the calls of \<^verbatim>\<open>backup_index_dlist\<close> made so far
  with their arguments, and \<^verbatim>\<open>r\<close>.
\<close>

record 'p rstate =
  member_ts :: int
  index_calls :: "(int \<times> 'p dlist) list"
  reindex_r :: int

text \<open>\<^verbatim>\<open>backup_index_dlist\<close>, lines 327 to 330: the body is \<^verbatim>\<open>return -1;\<close>.\<close>

definition backup_index_dlist :: "int \<Rightarrow> 'p dlist \<Rightarrow> int" where
  "backup_index_dlist ts dl = - 1"

datatype flow = Break | Continue | Fatal

text \<open>
  Lines 289 to 297, after the timestamp check. \<open>dl\<close> is \<open>None\<close> when
  \<^verbatim>\<open>backup_parse_command\<close> has left \<^verbatim>\<open>dl\<close> NULL; then \<^verbatim>\<open>cmd\<close> is still
  the empty buffer, which is not \<^verbatim>\<open>"APPLY"\<close>.
\<close>

definition index_record :: "int \<Rightarrow> string \<Rightarrow> 'p dlist option \<Rightarrow> 'p rstate \<Rightarrow> 'p rstate" where
  "index_record ts cmd dl st =
     (if cmd \<noteq> ''APPLY'' then st
      else case dl of
             None \<Rightarrow> st
           | Some d \<Rightarrow>
               let d' = Dlist (ucase (dname d)) (dbody d)
               in st\<lparr>index_calls := index_calls st @ [(ts, d')],
                     reindex_r := backup_index_dlist ts d'\<rparr>)"

text \<open>
  One pass of the inner \<^verbatim>\<open>while (1)\<close>, lines 276 to 298. When
  \<^verbatim>\<open>backup_parse_command\<close> fails with a character other than EOF the loop goes on
  with \<^verbatim>\<open>ts\<close> never written: \<open>junk\<close> gives the indeterminate value that is then
  read, which may change from pass to pass. \<^verbatim>\<open>fatal\<close> ends the process.
\<close>

definition reindex_step :: "('s, 'p) prot \<Rightarrow> ('s \<Rightarrow> int) \<Rightarrow> 's \<Rightarrow> 'p rstate
    \<Rightarrow> flow \<times> 'p rstate \<times> 's" where
  "reindex_step P junk member st =
     (let (c, out, member') = backup_parse_command P member
      in if c = EOF then (Break, st, member')
         else
           let ts = (case out of Some (t, _, _) \<Rightarrow> t | None \<Rightarrow> junk member');
               cmd = (case out of Some (_, w, _) \<Rightarrow> w | None \<Rightarrow> []);
               dl = (case out of Some (_, _, d) \<Rightarrow> Some d | None \<Rightarrow> None)
           in if member_ts st = - 1
              then (Continue, index_record ts cmd dl (st\<lparr>member_ts := ts\<rparr>), member')
              else if member_ts st > ts then (Fatal, st, member')
              else (Continue, index_record ts cmd dl st, member'))"

datatype 'p loop_end = Finished "'p rstate" | Aborted "'p rstate"

text \<open>
  The inner loop. It ends only by \<^verbatim>\<open>break\<close> or \<^verbatim>\<open>fatal\<close>; \<open>None\<close> is a loop
  that never ends.
\<close>

partial_function (option) member_loop :: "('s, 'p) prot \<Rightarrow> ('s \<Rightarrow> int) \<Rightarrow> 's \<Rightarrow> 'p rstate
    \<Rightarrow> 'p loop_end option" where
  "member_loop P junk member st =
     (case reindex_step P junk member st of
        (Break, st', _) \<Rightarrow> Some (Finished st')
      | (Fatal, st', _) \<Rightarrow> Some (Aborted st')
      | (Continue, st', member') \<Rightarrow> member_loop P junk member' st')"

declare member_loop.simps [code]

text \<open>
  Modelled from the spec: backup/gzuncat.c is not under src/. The spec gives its contract
  (open, end-of-stream test, begin chunk, read chunk bytes, end chunk, close) over a log
  that is a concatenation of chunks; here an open \<^verbatim>\<open>gzuncat\<close> is the list of the
  members not yet visited, each the stream that \<^verbatim>\<open>prot_readcb(fill_cb, gzuc)\<close> reads,
  \<^verbatim>\<open>gzuc_eof\<close> is the empty list and \<^verbatim>\<open>gzuc_member_end\<close> drops the head.

  The outer loop, lines 265 to 302: \<^verbatim>\<open>member_ts\<close> is declared inside it and starts
  every member at \<open>-1\<close>.
\<close>

fun members_loop :: "('s, 'p) prot \<Rightarrow> ('s \<Rightarrow> int) \<Rightarrow> 's list \<Rightarrow> 'p rstate \<Rightarrow> 'p loop_end option" where
  "members_loop P junk [] st = Some (Finished st)"
| "members_loop P junk (member # gzuc) st =
     (case member_loop P junk member (st\<lparr>member_ts := - 1\<rparr>) of
        None \<Rightarrow> None
      | Some (Aborted st') \<Rightarrow> Some (Aborted st')
      | Some (Finished st') \<Rightarrow> members_loop P junk gzuc st')"

text \<open>
  How \<^verbatim>\<open>backup_reindex\<close> ends: it returns a value, \<^verbatim>\<open>fatal\<close> ends the process,
  the assertion \<^verbatim>\<open>backup != NULL\<close> fails, or the open never returns.
\<close>

datatype reindex_end = Reindex_returned int | Reindex_fatal | Reindex_assert | Reindex_blocked

text \<open>
  \<^verbatim>\<open>backup_reindex\<close>, lines 256 to 310. \<open>gzuc_open\<close> maps the descriptor to the
  members of the log, or to \<open>None\<close> for a NULL \<^verbatim>\<open>gzuc\<close>, with which the
  outer loop is not entered. The result holds the calls
  of \<^verbatim>\<open>backup_index_dlist\<close> and the trace of the handle; \<open>None\<close> is a run whose
  inner loop never ends.
\<close>

definition backup_reindex :: "'d env \<Rightarrow> ('s, 'p) prot \<Rightarrow> ('s \<Rightarrow> int) \<Rightarrow> (int \<Rightarrow> 's list option)
    \<Rightarrow> string \<Rightarrow> (reindex_end \<times> (int \<times> 'p dlist) list \<times> 'd event list) option" where
  "backup_reindex e P junk gzuc_open nm =
     (case backup_open_internal e nm BACKUP_LOCK_EXCLUSIVE BACKUP_DATA_NORMAL BACKUP_INDEX_CREATE of
        (Open_blocked, tr) \<Rightarrow> Some (Reindex_blocked, [], tr)
      | (Open_failed r, tr) \<Rightarrow>
          Some (if r \<noteq> 0 then Reindex_returned r else Reindex_assert, [], tr)
      | (Opened backup, tr) \<Rightarrow>
          (let st0 = \<lparr> member_ts = - 1, index_calls = [], reindex_r = 0 \<rparr>;
               gzuc = (case gzuc_open (fd backup) of None \<Rightarrow> [] | Some ms \<Rightarrow> ms);
               tr' = snd (snd (backup_close (Some backup) tr))
           in map_option
                (\<lambda>l. case l of
                       Aborted st \<Rightarrow> (Reindex_fatal, index_calls st, tr)
                     | Finished st \<Rightarrow> (Reindex_returned (reindex_r st), index_calls st, tr'))
                (members_loop P junk gzuc st0)))"





section \<open>A scripted stream and environment, to run the code on concrete logs\<close>

text \<open>
  A stream whose content is already cut into the pieces the parsers read: a single
  character; a decimal number, a word or a payload, each with the character that follows it
  (which the parser reads and returns). A payload that does not parse is \<open>None\<close>. The
  flag of a stream says that \<^verbatim>\<open>prot_getc\<close> has taken the first character of the
  piece at the head; \<^verbatim>\<open>prot_ungetc\<close> puts it back.
\<close>

datatype 'p item = Chr int | Num int int | Word string int | Payload "'p dlist option" int

type_synonym 'p script = "bool \<times> 'p item list"

fun item_lead :: "'p item \<Rightarrow> int" where
  "item_lead (Chr c) = c"
| "item_lead (Num t c) = (if t < 0 then 45 else 48)"
| "item_lead (Word w c) = (case w of [] \<Rightarrow> c | ch # _ \<Rightarrow> of_char ch)"
| "item_lead (Payload d c) = 40"

fun script_getc :: "'p script \<Rightarrow> int \<times> 'p script" where
  "script_getc (b, []) = (EOF, (False, []))"
| "script_getc (b, Chr c # is) = (c, (False, is))"
| "script_getc (b, i # is) = (item_lead i, (True, i # is))"

fun script_ungetc :: "int \<Rightarrow> 'p script \<Rightarrow> 'p script" where
  "script_ungetc c (b, is) =
     (if c = EOF then (b, is) else if b then (False, is) else (False, Chr c # is))"

fun script_eatline :: "'p script \<Rightarrow> int \<Rightarrow> 'p script" where
  "script_eatline (b, is) c =
     (if c = 10 then (b, is) else (False, drop 1 (dropWhile (\<lambda>i. i \<noteq> Chr 10) is)))"

fun script_getint64 :: "'p script \<Rightarrow> int \<times> int \<times> 'p script" where
  "script_getint64 (b, Num t c # is) = (c, t, (False, is))"
| "script_getint64 (b, is) = (EOF, 0, (False, drop 1 is))"

fun script_getword :: "'p script \<Rightarrow> int \<times> string \<times> 'p script" where
  "script_getword (b, Word w c # is) = (c, w, (False, is))"
| "script_getword (b, is) = (EOF, [], (False, drop 1 is))"

fun script_dlist_parse :: "'p script \<Rightarrow> int \<times> 'p dlist option \<times> 'p script" where
  "script_dlist_parse (b, Payload d c # is) = (c, d, (False, is))"
| "script_dlist_parse (b, is) = (EOF, None, (False, drop 1 is))"

definition script_prot :: "('p script, 'p) prot" where
  "script_prot = \<lparr> prot_getc = script_getc, prot_ungetc = script_ungetc,
     eatline = script_eatline, getint64 = script_getint64, getword = script_getword,
     dlist_parse = script_dlist_parse \<rparr>"

text \<open>One well-formed line of the log: timestamp, verb, payload, newline.\<close>

definition line :: "int \<Rightarrow> string \<Rightarrow> 'p dlist \<Rightarrow> 'p item list" where
  "line ts verb dl = [Num ts 32, Word verb 32, Payload (Some dl) 10]"

text \<open>
  Modelled from the spec: \<^verbatim>\<open>sqldb_open\<close> of lib/sqldb.c is not under src/. The spec
  gives its contract as open(path, initSchema, currentVersion, orderedUpgradeSteps): it opens
  the existing schema and applies the ordered upgrade steps if the stored version is older
  than the current one, a stored version newer than the current one is an open error, and a
  fresh index gets the initial schema. \<open>stored\<close> gives the schema version stored at a
  path, 0 where there is no schema yet. The connection records the statements it has run.
\<close>

record sqldb =
  sq_fname :: string
  sq_version :: int
  sq_ran :: "string list"

definition spec_sqldb_open :: "(string \<Rightarrow> int) \<Rightarrow> string \<Rightarrow> string option \<Rightarrow> int
    \<Rightarrow> sqldb_upgrade list option \<Rightarrow> sqldb option" where
  "spec_sqldb_open stored fname initsql version upgradesql =
     (let v = stored fname
      in if v > version then None
         else if v = 0
         then (case initsql of
                 None \<Rightarrow> Some \<lparr> sq_fname = fname, sq_version = 0, sq_ran = [] \<rparr>
               | Some sql \<Rightarrow> Some \<lparr> sq_fname = fname, sq_version = version, sq_ran = [sql] \<rparr>)
         else (case upgradesql of
                 None \<Rightarrow> Some \<lparr> sq_fname = fname, sq_version = v, sq_ran = [] \<rparr>
               | Some steps \<Rightarrow>
                   Some \<lparr> sq_fname = fname, sq_version = version,
                          sq_ran = map snd (filter (\<lambda>(to, sql). v < to) steps) \<rparr>))"

text \<open>
  An environment in which every allocation, the open and the rename succeed (the
  descriptor is 3), the index store is \<open>spec_sqldb_open stored\<close> at current version 3, and
  \<open>lock nb\<close> is what \<^verbatim>\<open>lock_setlock\<close> gives for the non-blocking flag \<open>nb\<close>.
\<close>

definition test_env :: "(string \<Rightarrow> int) \<Rightarrow> (bool \<Rightarrow> int option) \<Rightarrow> sqldb env" where
  "test_env stored lock = \<lparr> xzmalloc_ok = True, strdup = Some,
     sys_open = (\<lambda>path flags. (3, 0)),
     lock_setlock = (\<lambda>fd exclusive nb filename. lock nb),
     sys_rename = (\<lambda>old new. (0, 0)),
     sqldb_open = spec_sqldb_open stored,
     backup_index_initsql = ''init'',
     backup_index_version = 3,
     backup_index_upgrade = [(2, ''to2''), (3, ''to3'')] \<rparr>"

text \<open>The lock is free: every request is granted at once.\<close>

definition lock_free :: "bool \<Rightarrow> int option" where
  "lock_free nb = Some 0"

text \<open>
  The lock is held by another process and stays held: a non-blocking request fails at once,
  a blocking request waits.
\<close>

definition lock_busy :: "bool \<Rightarrow> int option" where
  "lock_busy nb = (if nb then Some (- 1) else None)"

section \<open>Opening and closing the handle\<close>

lemmas open_defs = backup_open_internal_def open_index_def open_db_def unwind_def Let_def

lemmas test_env_defs = test_env_def lock_free_def lock_busy_def spec_sqldb_open_def
  zeroed_backup_def ENOENT_def




text \<open>
  C3, as the code has it. The claim says that the lock is requested without blocking. The
  code passes 0 for the \<^verbatim>\<open>nb\<close> argument of \<^verbatim>\<open>lock_setlock\<close>: once the log file
  is open, the one lock request that \<^verbatim>\<open>backup_open_internal\<close> makes is a blocking
  request for the negotiated type, it makes no non-blocking request, and when that request
  waits the open waits with it instead of failing.
\<close>

theorem open_lock_request_is_blocking:
  assumes "xzmalloc_ok e"
      and "sys_open e (nm @ ''.gz'') (fst (data_mode_switch dm lt)) = (newfd, errno)"
      and "0 \<le> newfd"
  shows "E_lock_setlock newfd (snd (data_mode_switch dm lt) = BACKUP_LOCK_EXCLUSIVE) False
             (nm @ ''.gz'')
           \<in> set (snd (backup_open_internal e nm lt dm im)) \<and>
         (\<forall>f x n. E_lock_setlock f x True n \<notin> set (snd (backup_open_internal e nm lt dm im))) \<and>
         (lock_setlock e newfd (snd (data_mode_switch dm lt) = BACKUP_LOCK_EXCLUSIVE) False
              (nm @ ''.gz'') = None
            \<longrightarrow> fst (backup_open_internal e nm lt dm im) = Open_blocked)"
  using assms
  by (cases dm; cases im)
     (auto simp: open_defs split: if_splits option.splits prod.splits)

theorem open_lock_request_is_blocking_witness:
  "xzmalloc_ok (test_env (\<lambda>p. 1) lock_busy) \<and>
   sys_open (test_env (\<lambda>p. 1) lock_busy) (''user'' @ ''.gz'')
     (fst (data_mode_switch BACKUP_DATA_NORMAL BACKUP_LOCK_SHARED)) = (3, 0) \<and>
   (0::int) \<le> 3 \<and>
   lock_setlock (test_env (\<lambda>p. 1) lock_busy) 3 False False ''user.gz'' = None \<and>
   E_lock_setlock 3 False False ''user.gz''
     \<in> set (snd (backup_open_internal (test_env (\<lambda>p. 1) lock_busy) ''user''
                   BACKUP_LOCK_SHARED BACKUP_DATA_NORMAL BACKUP_INDEX_READ)) \<and>
   fst (backup_open_internal (test_env (\<lambda>p. 1) lock_busy) ''user''
          BACKUP_LOCK_SHARED BACKUP_DATA_NORMAL BACKUP_INDEX_READ) = Open_blocked"
proof -
  have a: "xzmalloc_ok (test_env (\<lambda>p. 1) lock_busy)"
    by (simp add: test_env_def)
  have b: "sys_open (test_env (\<lambda>p. 1) lock_busy) (''user'' @ ''.gz'')
             (fst (data_mode_switch BACKUP_DATA_NORMAL BACKUP_LOCK_SHARED)) = (3, 0)"
    by (simp add: test_env_def)
  have c: "(0::int) \<le> 3" by simp
  have d: "lock_setlock (test_env (\<lambda>p. 1) lock_busy) 3 False False ''user.gz'' = None"
    by (simp add: test_env_def lock_busy_def)
  from open_lock_request_is_blocking [OF a b c, of BACKUP_INDEX_READ] a b d
  show ?thesis by simp
qed

text \<open>
  C3, counterexample. The lock is held by another process, so that a non-blocking request
  would fail at once with \<open>-1\<close>; the open of a shared reader does not return a failure, it
  waits in \<^verbatim>\<open>lock_setlock\<close>.
\<close>

theorem open_busy_lock_counterexample:
  "lock_busy True = Some (- 1) \<and>
   backup_open_internal (test_env (\<lambda>p. 1) lock_busy) ''user''
       BACKUP_LOCK_SHARED BACKUP_DATA_NORMAL BACKUP_INDEX_READ =
     (Open_blocked,
      [E_open ''user.gz'' [O_RDWR], E_lock_setlock 3 False False ''user.gz''])"
  by (simp add: open_defs test_env_defs)

text \<open>
  C4. Open is all-or-nothing. When \<^verbatim>\<open>backup_open_internal\<close> fails, at whichever point
  (the log file, the lock, the rename of the index or the index itself), the process is left
  holding nothing: no descriptor is open, no lock is held through any descriptor, whichever
  type it was, no index connection is open; the handle and its paths have been freed, and
  the result carries no handle. When it succeeds, the handle is complete: its descriptor is
  the one open descriptor, the lock is held through it, and its index connection is open.
\<close>

theorem open_is_all_or_nothing:
  assumes "backup_open_internal e nm lt dm im = (res, tr)"
  shows "case res of
           Opened h \<Rightarrow>
             0 \<le> fd h \<and> db h \<noteq> None \<and>
             held_after e tr =
               \<lparr> open_fds = {fd h}, locked_fds = {fd h}, open_dbs = set_option (db h) \<rparr>
         | Open_failed r \<Rightarrow>
             held_after e tr = nothing_held \<and>
             (if xzmalloc_ok e
              then E_free_backup \<in> set tr \<and> E_free (nm @ ''.gz'') \<in> set tr \<and>
                   E_free (nm @ ''.index'') \<in> set tr \<and>
                   (case strdup e nm of None \<Rightarrow> True | Some s \<Rightarrow> E_free s \<in> set tr) \<and>
                   (E_rename (nm @ ''.index'') ((nm @ ''.index'') @ ''.old'') \<in> set tr
                      \<longrightarrow> E_free ((nm @ ''.index'') @ ''.old'') \<in> set tr)
              else tr = [])
         | Open_blocked \<Rightarrow> True"
  using assms
  by (cases dm; cases im; cases lt)
     (auto simp: open_defs zeroed_backup_def held_after_def nothing_held_def
           split: if_splits option.splits prod.splits)

text \<open>
  Two failing opens, both with an index whose stored version 5 is newer than the current
  version 3. The first is a shared reader: the \<^verbatim>\<open>error:\<close> label tests
  \<^verbatim>\<open>backup->lock_type\<close> for truth, \<^verbatim>\<open>BACKUP_LOCK_SHARED\<close> is 0, and
  \<^verbatim>\<open>lock_unlock\<close> is not called; the shared lock goes when descriptor 3 is closed.
  The second is the open of a reindex, with the exclusive lock and the index renamed aside.
\<close>

theorem open_is_all_or_nothing_witness:
  "backup_open_internal (test_env (\<lambda>p. 5) lock_free) ''user''
       BACKUP_LOCK_SHARED BACKUP_DATA_NORMAL BACKUP_INDEX_READ =
     (Open_failed (- 1),
      [E_open ''user.gz'' [O_RDWR], E_lock_setlock 3 False False ''user.gz'',
       E_sqldb_open ''user.index'' None 3 None, E_close 3, E_free ''user'',
       E_free ''user.gz'', E_free ''user.index'', E_free_backup]) \<and>
   held_after (test_env (\<lambda>p. 5) lock_free)
      [E_open ''user.gz'' [O_RDWR], E_lock_setlock 3 False False ''user.gz''] =
     \<lparr> open_fds = {3}, locked_fds = {3}, open_dbs = {} \<rparr> \<and>
   held_after (test_env (\<lambda>p. 5) lock_free)
      [E_open ''user.gz'' [O_RDWR], E_lock_setlock 3 False False ''user.gz'',
       E_sqldb_open ''user.index'' None 3 None, E_close 3, E_free ''user'',
       E_free ''user.gz'', E_free ''user.index'', E_free_backup] = nothing_held \<and>
   backup_open_internal (test_env (\<lambda>p. 5) lock_free) ''user''
       BACKUP_LOCK_EXCLUSIVE BACKUP_DATA_NORMAL BACKUP_INDEX_CREATE =
     (Open_failed (- 1),
      [E_open ''user.gz'' [O_RDWR], E_lock_setlock 3 True False ''user.gz'',
       E_rename ''user.index'' ''user.index.old'',
       E_sqldb_open ''user.index'' (Some ''init'') 3 (Some [(2, ''to2''), (3, ''to3'')]),
       E_lock_unlock 3 (Some ''user.gz''), E_close 3, E_free ''user'',
       E_free ''user.gz'', E_free ''user.index'', E_free ''user.index.old'', E_free_backup]) \<and>
   held_after (test_env (\<lambda>p. 5) lock_free)
      [E_open ''user.gz'' [O_RDWR], E_lock_setlock 3 True False ''user.gz'',
       E_rename ''user.index'' ''user.index.old'',
       E_sqldb_open ''user.index'' (Some ''init'') 3 (Some [(2, ''to2''), (3, ''to3'')]),
       E_lock_unlock 3 (Some ''user.gz''), E_close 3, E_free ''user'',
       E_free ''user.gz'', E_free ''user.index'', E_free ''user.index.old'', E_free_backup] =
     nothing_held"
proof -
  have run1: "backup_open_internal (test_env (\<lambda>p. 5) lock_free) ''user''
       BACKUP_LOCK_SHARED BACKUP_DATA_NORMAL BACKUP_INDEX_READ =
     (Open_failed (- 1),
      [E_open ''user.gz'' [O_RDWR], E_lock_setlock 3 False False ''user.gz'',
       E_sqldb_open ''user.index'' None 3 None, E_close 3, E_free ''user'',
       E_free ''user.gz'', E_free ''user.index'', E_free_backup])"
    by (simp add: open_defs test_env_defs)
  have run2: "backup_open_internal (test_env (\<lambda>p. 5) lock_free) ''user''
       BACKUP_LOCK_EXCLUSIVE BACKUP_DATA_NORMAL BACKUP_INDEX_CREATE =
     (Open_failed (- 1),
      [E_open ''user.gz'' [O_RDWR], E_lock_setlock 3 True False ''user.gz'',
       E_rename ''user.index'' ''user.index.old'',
       E_sqldb_open ''user.index'' (Some ''init'') 3 (Some [(2, ''to2''), (3, ''to3'')]),
       E_lock_unlock 3 (Some ''user.gz''), E_close 3, E_free ''user'',
       E_free ''user.gz'', E_free ''user.index'', E_free ''user.index.old'', E_free_backup])"
    by (simp add: open_defs test_env_defs)
  have before: "held_after (test_env (\<lambda>p. 5) lock_free)
      [E_open ''user.gz'' [O_RDWR], E_lock_setlock 3 False False ''user.gz''] =
     \<lparr> open_fds = {3}, locked_fds = {3}, open_dbs = {} \<rparr>"
    by (simp add: held_after_def nothing_held_def test_env_def lock_free_def)
  from open_is_all_or_nothing [OF run1] open_is_all_or_nothing [OF run2] run1 run2 before
  show ?thesis by simp
qed





text \<open>
  C8. Every handle that \<^verbatim>\<open>backup_open_internal\<close> returns records the data mode and
  the index mode of the call; when the data mode is APPEND or CREATE its lock type is
  EXCLUSIVE and the lock was requested exclusive, whatever lock type the caller asked for.
\<close>

theorem open_append_create_force_exclusive:
  assumes "backup_open_internal e nm lt dm im = (Opened h, tr)"
  shows "data_mode h = dm \<and> index_mode h = im \<and>
         (dm = BACKUP_DATA_APPEND \<or> dm = BACKUP_DATA_CREATE \<longrightarrow>
            lock_type h = BACKUP_LOCK_EXCLUSIVE \<and>
            E_lock_setlock (fd h) True False (nm @ ''.gz'') \<in> set tr)"
  using assms
  by (cases dm; cases im)
     (auto simp: open_defs split: if_splits option.splits prod.splits)

theorem open_append_create_force_exclusive_witness:
  "backup_open_internal (test_env (\<lambda>p. 3) lock_free) ''user''
       BACKUP_LOCK_SHARED BACKUP_DATA_APPEND BACKUP_INDEX_WRITE =
     (Opened \<lparr> fd = 3, name = Some ''user'', gzname = Some ''user.gz'',
        idxname = Some ''user.index'', oldidxname = None,
        db = Some \<lparr> sq_fname = ''user.index'', sq_version = 3, sq_ran = [] \<rparr>,
        lock_type = BACKUP_LOCK_EXCLUSIVE, data_mode = BACKUP_DATA_APPEND,
        index_mode = BACKUP_INDEX_WRITE \<rparr>,
      [E_open ''user.gz'' [O_RDWR, O_APPEND], E_lock_setlock 3 True False ''user.gz'',
       E_sqldb_open ''user.index'' (Some ''init'') 3 (Some [(2, ''to2''), (3, ''to3'')])]) \<and>
   E_lock_setlock 3 True False (''user'' @ ''.gz'')
     \<in> set [E_open ''user.gz'' [O_RDWR, O_APPEND], E_lock_setlock 3 True False ''user.gz'',
         E_sqldb_open ''user.index'' (Some ''init'') 3 (Some [(2, ''to2''), (3, ''to3'')])]"
proof -
  have run: "backup_open_internal (test_env (\<lambda>p. 3) lock_free) ''user''
       BACKUP_LOCK_SHARED BACKUP_DATA_APPEND BACKUP_INDEX_WRITE =
     (Opened \<lparr> fd = 3, name = Some ''user'', gzname = Some ''user.gz'',
        idxname = Some ''user.index'', oldidxname = None,
        db = Some \<lparr> sq_fname = ''user.index'', sq_version = 3, sq_ran = [] \<rparr>,
        lock_type = BACKUP_LOCK_EXCLUSIVE, data_mode = BACKUP_DATA_APPEND,
        index_mode = BACKUP_INDEX_WRITE \<rparr>,
      [E_open ''user.gz'' [O_RDWR, O_APPEND], E_lock_setlock 3 True False ''user.gz'',
       E_sqldb_open ''user.index'' (Some ''init'') 3 (Some [(2, ''to2''), (3, ''to3'')])])"
    by (simp add: open_defs test_env_defs)
  from open_append_create_force_exclusive [OF run] run
  show ?thesis by simp
qed

text \<open>
  C9, as the code has it. The claim says that close releases the lock, closes the
  descriptor and the index, frees the paths and invalidates the handle. The body of
  \<^verbatim>\<open>backup_close\<close> is \<^verbatim>\<open>return -1;\<close>: for every handle it returns \<open>-1\<close>, makes
  no call, and leaves the caller's pointer to the handle as it was.
\<close>

theorem backup_close_releases_nothing:
  "backup_close bp tr = (- 1, bp, tr)"
  by (simp add: backup_close_def)

text \<open>
  C9, counterexample. The handle of a live writer, with the trace of its open: after
  \<^verbatim>\<open>backup_close\<close> the trace has gained no \<^verbatim>\<open>lock_unlock\<close>, \<^verbatim>\<open>close\<close>,
  \<^verbatim>\<open>sqldb_close\<close> or \<^verbatim>\<open>free\<close>, and the pointer still holds the handle.
\<close>

theorem backup_close_counterexample:
  "backup_close
     (Some \<lparr> fd = 3, name = Some ''user'', gzname = Some ''user.gz'',
        idxname = Some ''user.index'', oldidxname = None,
        db = Some \<lparr> sq_fname = ''user.index'', sq_version = 3, sq_ran = [] \<rparr>,
        lock_type = BACKUP_LOCK_EXCLUSIVE, data_mode = BACKUP_DATA_APPEND,
        index_mode = BACKUP_INDEX_WRITE \<rparr>)
     [E_open ''user.gz'' [O_RDWR, O_APPEND], E_lock_setlock 3 True False ''user.gz'',
      E_sqldb_open ''user.index'' (Some ''init'') 3 (Some [(2, ''to2''), (3, ''to3'')])] =
   (- 1,
    Some \<lparr> fd = 3, name = Some ''user'', gzname = Some ''user.gz'',
        idxname = Some ''user.index'', oldidxname = None,
        db = Some \<lparr> sq_fname = ''user.index'', sq_version = 3, sq_ran = [] \<rparr>,
        lock_type = BACKUP_LOCK_EXCLUSIVE, data_mode = BACKUP_DATA_APPEND,
        index_mode = BACKUP_INDEX_WRITE \<rparr>,
    [E_open ''user.gz'' [O_RDWR, O_APPEND], E_lock_setlock 3 True False ''user.gz'',
     E_sqldb_open ''user.index'' (Some ''init'') 3 (Some [(2, ''to2''), (3, ''to3'')])])"
  by (simp add: backup_close_def)

section \<open>The reindexer\<close>

lemma ucase_mailbox: "ucase ''mailbox'' = ''MAILBOX''"
  by code_simp

lemma ucase_user: "ucase ''user'' = ''USER''"
  by code_simp

lemmas run_defs = reindex_step_def backup_parse_command_def script_prot_def line_def EOF_def
  index_record_def backup_index_dlist_def ucase_mailbox ucase_user

text \<open>A record that \<^verbatim>\<open>backup_parse_command\<close> hands over ends in a newline.\<close>

lemma parse_success_newline:
  "backup_parse_command P m = (c, Some x, m') \<Longrightarrow> c = 10"
  by (auto simp: backup_parse_command_def Let_def EOF_def
           split: prod.splits if_splits option.splits)

lemma reindex_step_success:
  assumes "backup_parse_command P member = (c, Some (ts, cmd, dl), member')"
  shows "reindex_step P junk member st =
           (if member_ts st = - 1
            then (Continue, index_record ts cmd (Some dl) (st\<lparr>member_ts := ts\<rparr>), member')
            else if member_ts st > ts then (Fatal, st, member')
            else (Continue, index_record ts cmd (Some dl) st, member'))"
  using assms parse_success_newline [OF assms]
  by (simp add: reindex_step_def EOF_def)

lemma reindex_step_failure:
  assumes "backup_parse_command P member = (c, None, member')"
  shows "reindex_step P junk member st =
           (if c = EOF then (Break, st, member')
            else if member_ts st = - 1
            then (Continue, st\<lparr>member_ts := junk member'\<rparr>, member')
            else if member_ts st > junk member' then (Fatal, st, member')
            else (Continue, st, member'))"
  using assms
  by (simp add: reindex_step_def index_record_def)

lemma member_ts_index_record [simp]:
  "member_ts (index_record ts cmd dl st) = member_ts st"
  by (simp add: index_record_def Let_def split: option.splits)

lemma index_calls_index_record:
  "index_calls (index_record ts cmd (Some dl) st) =
     (if cmd = ''APPLY'' then index_calls st @ [(ts, Dlist (ucase (dname dl)) (dbody dl))]
      else index_calls st)"
  by (simp add: index_record_def Let_def)

text \<open>Once the cursor is set, no pass of the loop changes it.\<close>

lemma reindex_step_keeps_set_cursor:
  assumes "member_ts st \<noteq> - 1"
  shows "member_ts (fst (snd (reindex_step P junk member st))) = member_ts st"
proof -
  obtain c out member' where p: "backup_parse_command P member = (c, out, member')"
    by (cases "backup_parse_command P member")
  show ?thesis
  proof (cases out)
    case None
    with p assms show ?thesis by (simp add: reindex_step_failure)
  next
    case (Some x)
    obtain ts cmd dl where "x = (ts, cmd, dl)" by (cases x)
    with Some p assms show ?thesis by (simp add: reindex_step_success)
  qed
qed

text \<open>
  C1, as the code has it. The claim says that every record after the first advances the
  cursor. The code assigns \<^verbatim>\<open>member_ts\<close> only while it is \<open>-1\<close>. For every
  successfully parsed record met with the cursor set: if its timestamp is less than the
  cursor, the loop ends in \<^verbatim>\<open>fatal\<close> with the calls of \<^verbatim>\<open>backup_index_dlist\<close>
  made so far and no other; otherwise the loop goes on to the next record with the cursor
  unchanged. The cursor stays the timestamp that set it, it is not the timestamp of the
  preceding record.
\<close>

theorem reindex_cursor_is_not_advanced:
  assumes "backup_parse_command P member = (c, Some (ts, cmd, dl), member')"
      and "member_ts st \<noteq> - 1"
  shows "if ts < member_ts st
         then member_loop P junk member st = Some (Aborted st)
         else member_loop P junk member st =
                member_loop P junk member' (index_record ts cmd (Some dl) st) \<and>
              member_ts (index_record ts cmd (Some dl) st) = member_ts st"
  using assms(2)
  by (subst member_loop.simps, subst (2) member_loop.simps)
     (simp add: reindex_step_success [OF assms(1)])

theorem reindex_cursor_is_not_advanced_witness:
  "backup_parse_command script_prot
     (False, line 1005 ''APPLY'' (Dlist ''mailbox'' ()) @ line 1002 ''APPLY'' (Dlist ''user'' ())) =
     (10, Some (1005, ''APPLY'', Dlist ''mailbox'' ()),
      (False, line 1002 ''APPLY'' (Dlist ''user'' ()))) \<and>
   member_ts \<lparr> member_ts = 1000, index_calls = [], reindex_r = 0 \<rparr> \<noteq> - 1 \<and>
   member_loop script_prot (\<lambda>s. 0)
     (False, line 1005 ''APPLY'' (Dlist ''mailbox'' ()) @ line 1002 ''APPLY'' (Dlist ''user'' ()))
     \<lparr> member_ts = 1000, index_calls = [], reindex_r = 0 \<rparr> =
   member_loop script_prot (\<lambda>s. 0) (False, line 1002 ''APPLY'' (Dlist ''user'' ()))
     \<lparr> member_ts = 1000, index_calls = [(1005, Dlist ''MAILBOX'' ())], reindex_r = - 1 \<rparr> \<and>
   backup_parse_command script_prot (False, line 999 ''APPLY'' (Dlist ''user'' ())) =
     (10, Some (999, ''APPLY'', Dlist ''user'' ()), (False, [])) \<and>
   member_loop script_prot (\<lambda>s. 0) (False, line 999 ''APPLY'' (Dlist ''user'' ()))
     \<lparr> member_ts = 1000, index_calls = [], reindex_r = 0 \<rparr> =
   Some (Aborted \<lparr> member_ts = 1000, index_calls = [], reindex_r = 0 \<rparr>)"
proof -
  have p1: "backup_parse_command script_prot
     (False, line 1005 ''APPLY'' (Dlist ''mailbox'' ()) @ line 1002 ''APPLY'' (Dlist ''user'' ())) =
     (10, Some (1005, ''APPLY'', Dlist ''mailbox'' ()),
      (False, line 1002 ''APPLY'' (Dlist ''user'' ())))"
    by (simp add: run_defs)
  have p2: "backup_parse_command script_prot (False, line 999 ''APPLY'' (Dlist ''user'' ())) =
     (10, Some (999, ''APPLY'', Dlist ''user'' ()), (False, []))"
    by (simp add: run_defs)
  have set: "member_ts \<lparr> member_ts = 1000, index_calls = [], reindex_r = 0 \<rparr> \<noteq> - 1"
    by simp
  from reindex_cursor_is_not_advanced [OF p1 set, of "\<lambda>s. 0"]
       reindex_cursor_is_not_advanced [OF p2 set, of "\<lambda>s. 0"] p1 p2
  show ?thesis
    by (simp add: index_record_def backup_index_dlist_def ucase_mailbox)
qed

text \<open>
  C1, counterexample. One chunk holds records with the timestamps 1000, 1005 and 1002, all
  with the verb APPLY. By the claim the cursor is 1005 when the third record is read, and
  1002 is less, so the reindex aborts. The code ends the chunk normally with all three
  records indexed, and the cursor is 1000.
\<close>

theorem reindex_cursor_counterexample:
  "member_loop script_prot (\<lambda>s. 0)
     (False, line 1000 ''APPLY'' (Dlist ''mailbox'' ()) @ line 1005 ''APPLY'' (Dlist ''mailbox'' ())
        @ line 1002 ''APPLY'' (Dlist ''user'' ()))
     \<lparr> member_ts = - 1, index_calls = [], reindex_r = 0 \<rparr> =
   Some (Finished \<lparr> member_ts = 1000,
     index_calls = [(1000, Dlist ''MAILBOX'' ()), (1005, Dlist ''MAILBOX'' ()),
                    (1002, Dlist ''USER'' ())],
     reindex_r = - 1 \<rparr>)"
  by (simp add: member_loop.simps run_defs)

text \<open>
  C2, as the code has it. The claim says that the ordering check reaches across chunk
  boundaries. The cursor is declared inside the loop over the chunks and starts every chunk
  at \<open>-1\<close>: when the first chunk has ended normally and the first record of the second
  chunk parses, that record is not compared with anything, whatever its timestamp and
  whatever the first chunk held. It sets the cursor, it is indexed when its verb is APPLY,
  and the reindex goes on with the rest of the second chunk and the later chunks.
\<close>

theorem reindex_cursor_is_per_chunk:
  assumes "member_loop P junk m1 (st\<lparr>member_ts := - 1\<rparr>) = Some (Finished st1)"
      and "backup_parse_command P m2 = (c, Some (ts, cmd, dl), m2')"
  shows "members_loop P junk (m1 # m2 # gzuc) st =
           (case member_loop P junk m2'
                   (index_record ts cmd (Some dl) (st1\<lparr>member_ts := ts\<rparr>)) of
              None \<Rightarrow> None
            | Some (Aborted s) \<Rightarrow> Some (Aborted s)
            | Some (Finished s) \<Rightarrow> members_loop P junk gzuc s)"
proof -
  have "member_loop P junk m2 (st1\<lparr>member_ts := - 1\<rparr>) =
          member_loop P junk m2' (index_record ts cmd (Some dl) (st1\<lparr>member_ts := ts\<rparr>))"
    by (subst member_loop.simps) (simp add: reindex_step_success [OF assms(2)])
  with assms(1) show ?thesis by simp
qed

theorem reindex_cursor_is_per_chunk_witness:
  "member_loop script_prot (\<lambda>s. 0) (False, line 1000 ''APPLY'' (Dlist ''mailbox'' ()))
     (\<lparr> member_ts = - 1, index_calls = [], reindex_r = 0 \<rparr>\<lparr>member_ts := - 1\<rparr>) =
     Some (Finished \<lparr> member_ts = 1000, index_calls = [(1000, Dlist ''MAILBOX'' ())],
       reindex_r = - 1 \<rparr>) \<and>
   backup_parse_command script_prot (False, line 999 ''APPLY'' (Dlist ''user'' ())) =
     (10, Some (999, ''APPLY'', Dlist ''user'' ()), (False, [])) \<and>
   members_loop script_prot (\<lambda>s. 0)
     [(False, line 1000 ''APPLY'' (Dlist ''mailbox'' ())),
      (False, line 999 ''APPLY'' (Dlist ''user'' ()))]
     \<lparr> member_ts = - 1, index_calls = [], reindex_r = 0 \<rparr> =
   Some (Finished \<lparr> member_ts = 999,
     index_calls = [(1000, Dlist ''MAILBOX'' ()), (999, Dlist ''USER'' ())],
     reindex_r = - 1 \<rparr>)"
proof -
  have l1: "member_loop script_prot (\<lambda>s. 0) (False, line 1000 ''APPLY'' (Dlist ''mailbox'' ()))
     (\<lparr> member_ts = - 1, index_calls = [], reindex_r = 0 \<rparr>\<lparr>member_ts := - 1\<rparr>) =
     Some (Finished \<lparr> member_ts = 1000, index_calls = [(1000, Dlist ''MAILBOX'' ())],
       reindex_r = - 1 \<rparr>)"
    by (simp add: member_loop.simps run_defs)
  have p2: "backup_parse_command script_prot (False, line 999 ''APPLY'' (Dlist ''user'' ())) =
     (10, Some (999, ''APPLY'', Dlist ''user'' ()), (False, []))"
    by (simp add: run_defs)
  have rest: "member_loop script_prot (\<lambda>s. 0) (False, [])
       \<lparr> member_ts = 999,
         index_calls = [(1000, Dlist ''MAILBOX'' ()), (999, Dlist ''USER'' ())],
         reindex_r = - 1 \<rparr> =
     Some (Finished \<lparr> member_ts = 999,
       index_calls = [(1000, Dlist ''MAILBOX'' ()), (999, Dlist ''USER'' ())],
       reindex_r = - 1 \<rparr>)"
    by (simp add: member_loop.simps run_defs)
  have "members_loop script_prot (\<lambda>s. 0)
     [(False, line 1000 ''APPLY'' (Dlist ''mailbox'' ())),
      (False, line 999 ''APPLY'' (Dlist ''user'' ()))]
     \<lparr> member_ts = - 1, index_calls = [], reindex_r = 0 \<rparr> =
   Some (Finished \<lparr> member_ts = 999,
     index_calls = [(1000, Dlist ''MAILBOX'' ()), (999, Dlist ''USER'' ())],
     reindex_r = - 1 \<rparr>)"
    by (subst reindex_cursor_is_per_chunk [OF l1 p2])
       (simp add: index_record_def backup_index_dlist_def ucase_user rest)
  with l1 p2 show ?thesis by simp
qed

text \<open>
  C2, counterexample. The log has two chunks, the first with one record at 1000 and the
  second with one record at 999, both APPLY. By the claim the reindex aborts at the second
  chunk's record and does not index it. The code returns normally and has indexed both.
\<close>

theorem reindex_across_chunks_counterexample:
  "backup_reindex (test_env (\<lambda>p. 0) lock_free) script_prot (\<lambda>s. 0)
     (\<lambda>fd. Some [(False, line 1000 ''APPLY'' (Dlist ''mailbox'' ())),
                 (False, line 999 ''APPLY'' (Dlist ''user'' ()))])
     ''user'' =
   Some (Reindex_returned (- 1),
     [(1000, Dlist ''MAILBOX'' ()), (999, Dlist ''USER'' ())],
     [E_open ''user.gz'' [O_RDWR], E_lock_setlock 3 True False ''user.gz'',
      E_rename ''user.index'' ''user.index.old'',
      E_sqldb_open ''user.index'' (Some ''init'') 3 (Some [(2, ''to2''), (3, ''to3'')])])"
  by (simp add: backup_reindex_def open_defs test_env_defs backup_close_def
        member_loop.simps run_defs)

text \<open>
  C5, at the input where the code leaves the claim. The first line of the chunk has a
  space between its payload and the newline, so that \<^verbatim>\<open>backup_parse_command\<close> takes
  its \<^verbatim>\<open>fail:\<close> path after "expected newline" and returns the space. The loop of
  \<^verbatim>\<open>backup_reindex\<close> breaks only on EOF: it goes on, reads the \<^verbatim>\<open>ts\<close> that was
  never written (here 0) into the cursor, parses the second line of the same chunk and
  indexes it.
\<close>

theorem reindex_goes_on_after_malformed_record:
  "backup_parse_command script_prot
     (False, [Num 1000 32, Word ''APPLY'' 32, Payload (Some (Dlist ''mailbox'' ())) 32, Chr 10]
        @ line 1001 ''APPLY'' (Dlist ''user'' ())) =
     (32, None, (False, line 1001 ''APPLY'' (Dlist ''user'' ()))) \<and>
   member_loop script_prot (\<lambda>s. 0)
     (False, [Num 1000 32, Word ''APPLY'' 32, Payload (Some (Dlist ''mailbox'' ())) 32, Chr 10]
        @ line 1001 ''APPLY'' (Dlist ''user'' ()))
     \<lparr> member_ts = - 1, index_calls = [], reindex_r = 0 \<rparr> =
   Some (Finished \<lparr> member_ts = 0, index_calls = [(1001, Dlist ''USER'' ())],
     reindex_r = - 1 \<rparr>)"
  by (simp add: member_loop.simps run_defs)


text \<open>What one pass of the loop adds to the calls of \<^verbatim>\<open>backup_index_dlist\<close>.\<close>

lemma reindex_step_index_calls:
  assumes "backup_parse_command P member = (c, out, member')"
  shows "index_calls (fst (snd (reindex_step P junk member st))) =
           (case out of
              None \<Rightarrow> index_calls st
            | Some (ts, cmd, dl) \<Rightarrow>
                if (member_ts st = - 1 \<or> member_ts st \<le> ts) \<and> cmd = ''APPLY''
                then index_calls st @ [(ts, Dlist (ucase (dname dl)) (dbody dl))]
                else index_calls st)"
proof (cases out)
  case None
  with assms show ?thesis by (simp add: reindex_step_failure)
next
  case (Some x)
  obtain ts cmd dl where "x = (ts, cmd, dl)" by (cases x)
  with Some assms show ?thesis
    by (simp add: reindex_step_success index_calls_index_record)
qed









text \<open>
  C10. The unset cursor is the value \<open>-1\<close>. When a record with the timestamp \<open>-1\<close> is
  parsed with the cursor unset, the loop goes on and the cursor is still \<open>-1\<close>; the next
  record that parses is then not checked against it, whatever its timestamp: the loop goes
  on again and that record's timestamp becomes the cursor.
\<close>

theorem reindex_sentinel_timestamp:
  assumes "backup_parse_command P member = (c, Some (- 1, cmd, dl), member')"
      and "backup_parse_command P member' = (c', Some (ts', cmd', dl'), member'')"
      and "member_ts st = - 1"
  shows "reindex_step P junk member st =
           (Continue, index_record (- 1) cmd (Some dl) st, member') \<and>
         member_ts (index_record (- 1) cmd (Some dl) st) = - 1 \<and>
         reindex_step P junk member' (index_record (- 1) cmd (Some dl) st) =
           (Continue,
            index_record ts' cmd' (Some dl')
              ((index_record (- 1) cmd (Some dl) st)\<lparr>member_ts := ts'\<rparr>),
            member'')"
proof -
  have same: "st\<lparr>member_ts := - 1\<rparr> = st" using assms(3) by simp
  show ?thesis using assms(3)
    by (simp add: reindex_step_success [OF assms(1)] reindex_step_success [OF assms(2)] same)
qed

theorem reindex_sentinel_timestamp_witness:
  "backup_parse_command script_prot
     (False, line (- 1) ''APPLY'' (Dlist ''mailbox'' ()) @ line (- 5) ''APPLY'' (Dlist ''user'' ())) =
     (10, Some (- 1, ''APPLY'', Dlist ''mailbox'' ()),
      (False, line (- 5) ''APPLY'' (Dlist ''user'' ()))) \<and>
   backup_parse_command script_prot (False, line (- 5) ''APPLY'' (Dlist ''user'' ())) =
     (10, Some (- 5, ''APPLY'', Dlist ''user'' ()), (False, [])) \<and>
   member_ts \<lparr> member_ts = - 1, index_calls = [], reindex_r = 0 \<rparr> = - 1 \<and>
   reindex_step script_prot (\<lambda>s. 0)
     (False, line (- 1) ''APPLY'' (Dlist ''mailbox'' ()) @ line (- 5) ''APPLY'' (Dlist ''user'' ()))
     \<lparr> member_ts = - 1, index_calls = [], reindex_r = 0 \<rparr> =
     (Continue,
      \<lparr> member_ts = - 1, index_calls = [(- 1, Dlist ''MAILBOX'' ())], reindex_r = - 1 \<rparr>,
      (False, line (- 5) ''APPLY'' (Dlist ''user'' ()))) \<and>
   reindex_step script_prot (\<lambda>s. 0) (False, line (- 5) ''APPLY'' (Dlist ''user'' ()))
     \<lparr> member_ts = - 1, index_calls = [(- 1, Dlist ''MAILBOX'' ())], reindex_r = - 1 \<rparr> =
     (Continue,
      \<lparr> member_ts = - 5,
        index_calls = [(- 1, Dlist ''MAILBOX'' ()), (- 5, Dlist ''USER'' ())],
        reindex_r = - 1 \<rparr>,
      (False, []))"
proof -
  have p1: "backup_parse_command script_prot
     (False, line (- 1) ''APPLY'' (Dlist ''mailbox'' ()) @ line (- 5) ''APPLY'' (Dlist ''user'' ())) =
     (10, Some (- 1, ''APPLY'', Dlist ''mailbox'' ()),
      (False, line (- 5) ''APPLY'' (Dlist ''user'' ())))"
    by (simp add: run_defs)
  have p2: "backup_parse_command script_prot (False, line (- 5) ''APPLY'' (Dlist ''user'' ())) =
     (10, Some (- 5, ''APPLY'', Dlist ''user'' ()), (False, []))"
    by (simp add: run_defs)
  have unset: "member_ts \<lparr> member_ts = - 1, index_calls = [], reindex_r = 0 \<rparr> = - 1"
    by simp
  from reindex_sentinel_timestamp [OF p1 p2 unset, of "\<lambda>s. 0"] p1 p2
  show ?thesis
    by (simp add: index_record_def backup_index_dlist_def ucase_mailbox ucase_user)
qed

end
